theory Spec2Isabelle
  imports Main "HOL-Library.Word"
begin

section \<open>Byte strings\<close>

text \<open>
  Go strings are byte sequences; they are modelled as \<open>string\<close> (a list of 8-bit
  characters). The characters that cannot be written inside a literal get a name.
\<close>

definition tab :: char where "tab = CHR 0x09"
definition nl :: char where "nl = CHR 0x0A"
definition dq :: char where "dq = CHR 0x22"
definition bs :: char where "bs = CHR 0x5C"

text \<open>\<open>strings.Join\<close>.\<close>

fun Join :: "string list \<Rightarrow> string \<Rightarrow> string" where
  "Join [] sep = []"
| "Join [x] sep = x"
| "Join (x # y # ys) sep = x @ sep @ Join (y # ys) sep"

text \<open>\<open>strings.HasPrefix s p\<close>.\<close>

definition HasPrefix :: "string \<Rightarrow> string \<Rightarrow> bool" where
  "HasPrefix s p = (take (length p) s = p)"

text \<open>
  \<open>strings.ToLower\<close> and \<open>strings.ToUpper\<close> on ASCII letters. Other bytes are kept,
  which is what Go does for a text whose letters are ASCII letters, as the wordings
  of durations and the column titles are.
\<close>

definition upper_letters :: string where "upper_letters = ''ABCDEFGHIJKLMNOPQRSTUVWXYZ''"
definition lower_letters :: string where "lower_letters = ''abcdefghijklmnopqrstuvwxyz''"

definition lower_char :: "char \<Rightarrow> char" where
  "lower_char c = (case map_of (zip upper_letters lower_letters) c of Some d \<Rightarrow> d | None \<Rightarrow> c)"

definition upper_char :: "char \<Rightarrow> char" where
  "upper_char c = (case map_of (zip lower_letters upper_letters) c of Some d \<Rightarrow> d | None \<Rightarrow> c)"

definition ToLower :: "string \<Rightarrow> string" where
  "ToLower s = map lower_char s"

definition ToUpper :: "string \<Rightarrow> string" where
  "ToUpper s = map upper_char s"

text \<open>The verb \<open>%d\<close> of \<open>fmt.Sprintf\<close> on an unsigned number: its decimal digits.\<close>

definition digit_char :: "nat \<Rightarrow> char" where
  "digit_char d = ''0123456789'' ! d"

function show_nat :: "nat \<Rightarrow> string" where
  "show_nat n = (if n < 10 then [digit_char n] else show_nat (n div 10) @ [digit_char (n mod 10)])"
  by pat_completeness auto
termination
  by (relation "measure id") auto

declare show_nat.simps [simp del]

section \<open>The swarm task, as the task formatter reads it\<close>

text \<open>
  Of \<open>swarm.Task\<close> the formatter reads \<open>ID\<close>, \<open>Spec.ContainerSpec.Image\<close>,
  \<open>DesiredState\<close> and \<open>Status\<close> (\<open>Timestamp\<close>, \<open>State\<close>, \<open>Err\<close>,
  \<open>PortStatus.Ports\<close>). Task states are Go strings, the port numbers are \<open>uint32\<close>, and
  the timestamp is a point on the time line counted in nanoseconds.
\<close>

record PortConfig =
  Protocol :: string
  TargetPort :: "32 word"
  PublishedPort :: "32 word"

record TaskStatus =
  Status_Timestamp :: int
  Status_State :: string
  Status_Err :: string
  PortStatus_Ports :: "PortConfig list"

record Task =
  Task_ID :: string
  Spec_ContainerSpec_Image :: string
  Task_DesiredState :: string
  Task_Status :: TaskStatus

section \<open>What the task formatter takes from outside\<close>

text \<open>
  The accessors call into code that lies outside the task formatter. What they get from
  there is a parameter of the model:
  \<^item> \<open>HumanDuration\<close>: \<open>units.HumanDuration\<close> of go-units, from a duration in
    nanoseconds to its wording;
  \<^item> \<open>PrettyPrint\<close>: \<open>formatter.PrettyPrint\<close>, the display form of a task state;
  \<^item> \<open>FamiliarTagged\<close>: the chain \<open>reference.ParseNormalizedNamed\<close>,
    \<open>reference.WithTag (reference.TrimNamed nt) (nt.Tag ())\<close>, \<open>reference.FamiliarString\<close> of
    \<open>taskContext.Image\<close>: \<open>Some\<close> of the familiar name with its tag when the image
    parses, is tagged and the tag can be put back, \<open>None\<close> when any of the three steps
    fails;
  \<^item> \<open>Ellipsis\<close>: \<open>formatter.Ellipsis\<close>, from a text and a maximum length to the
    text as it is shown within that length;
  \<^item> \<open>shortLen\<close>: the length of a short identifier;
  \<^item> \<open>NameHeader\<close>, \<open>ImageHeader\<close>, \<open>ErrorHeader\<close>, \<open>PortsHeader\<close>: the column
    titles that package formatter shares between entity kinds.
\<close>

record lib =
  HumanDuration :: "int \<Rightarrow> string"
  PrettyPrint :: "string \<Rightarrow> string"
  FamiliarTagged :: "string \<Rightarrow> string option"
  Ellipsis :: "string \<Rightarrow> nat \<Rightarrow> string"
  shortLen :: nat
  NameHeader :: string
  ImageHeader :: string
  ErrorHeader :: string
  PortsHeader :: string

section \<open>Package formatter: constants and helpers\<close>

text \<open>
  Modelled from the spec: the reserved aliases \<open>formatter.TableFormatKey\<close> and
  \<open>formatter.RawFormatKey\<close> ("table" and "raw"), which the tests of the network
  formatter pass as literals.
\<close>

definition TableFormatKey :: string where "TableFormatKey = ''table''"
definition RawFormatKey :: string where "RawFormatKey = ''raw''"

text \<open>
  Modelled from the spec: \<open>formatter.DefaultQuietFormat\<close>, the quiet default, which is
  ID-only.
\<close>

definition DefaultQuietFormat :: string where "DefaultQuietFormat = ''{{.ID}}''"

text \<open>
  Modelled from the spec: \<open>formatter.TruncateID\<close>. With truncation, an identifier field
  is a fixed-length prefix of the full identifier. The length of the prefix is the
  first argument (\<open>shortLen\<close> of the parameters above).
\<close>

definition TruncateID :: "nat \<Rightarrow> string \<Rightarrow> string" where
  "TruncateID n ident = take n ident"

section \<open>Package task: the entity view of a task\<close>

definition defaultTaskTableFormat :: string where
  "defaultTaskTableFormat =
     ''table {{.ID}}'' @ [tab] @ ''{{.Name}}'' @ [tab] @ ''{{.Image}}'' @ [tab] @ ''{{.Node}}'' @ [tab]
       @ ''{{.DesiredState}}'' @ [tab] @ ''{{.CurrentState}}'' @ [tab] @ ''{{.Error}}'' @ [tab] @ ''{{.Ports}}''"

definition nodeHeader :: string where "nodeHeader = ''NODE''"
definition taskIDHeader :: string where "taskIDHeader = ''ID''"
definition desiredStateHeader :: string where "desiredStateHeader = ''DESIRED STATE''"
definition currentStateHeader :: string where "currentStateHeader = ''CURRENT STATE''"

definition maxErrLength :: nat where "maxErrLength = 30"

text \<open>
  The raw template of \<open>NewTaskFormat\<close> is a Go raw string: its \<open>\n\<close> are the two
  characters backslash and n.
\<close>

definition taskRawFormat :: string where
  "taskRawFormat =
     ''id: {{.ID}}'' @ [bs] @ ''nname: {{.Name}}'' @ [bs] @ ''nimage: {{.Image}}'' @ [bs]
       @ ''nnode: {{.Node}}'' @ [bs] @ ''ndesired_state: {{.DesiredState}}'' @ [bs]
       @ ''ncurrent_state: {{.CurrentState}}'' @ [bs] @ ''nerror: {{.Error}}'' @ [bs]
       @ ''nports: {{.Ports}}'' @ [bs] @ ''n''"

definition NewTaskFormat :: "string \<Rightarrow> bool \<Rightarrow> string" where
  "NewTaskFormat source quiet =
     (if source = TableFormatKey then
        (if quiet then DefaultQuietFormat else defaultTaskTableFormat)
      else if source = RawFormatKey then
        (if quiet then ''id: {{.ID}}'' else taskRawFormat)
      else source)"

record taskContext =
  trunc :: bool
  task :: Task
  name :: string
  node :: string

definition taskContext_ID :: "lib \<Rightarrow> taskContext \<Rightarrow> string" where
  "taskContext_ID L c = (if trunc c then TruncateID (shortLen L) (Task_ID (task c)) else Task_ID (task c))"

definition taskContext_Name :: "taskContext \<Rightarrow> string" where
  "taskContext_Name c = name c"

definition taskContext_Image :: "lib \<Rightarrow> taskContext \<Rightarrow> string" where
  "taskContext_Image L c =
     (let image = Spec_ContainerSpec_Image (task c) in
      if trunc c then (case FamiliarTagged L image of Some familiar \<Rightarrow> familiar | None \<Rightarrow> image)
      else image)"

definition taskContext_Node :: "taskContext \<Rightarrow> string" where
  "taskContext_Node c = node c"

definition taskContext_DesiredState :: "lib \<Rightarrow> taskContext \<Rightarrow> string" where
  "taskContext_DesiredState L c = PrettyPrint L (Task_DesiredState (task c))"

text \<open>
  \<open>time.Since t\<close> is \<open>time.Now ().Sub t\<close>: it reads the clock of the machine. The
  reading of that clock at the call is the argument \<open>clock\<close>; it is no field of
  \<open>taskContext\<close> and no argument of \<open>FormatWrite\<close>. Points in time are counted in
  nanoseconds from the zero value of \<open>time.Time\<close>. A \<open>time.Duration\<close> is a signed
  64-bit count of nanoseconds, and \<open>Sub\<close> answers with the largest or the smallest
  duration when the difference does not fit.
\<close>

definition minDuration :: int where "minDuration = - (2 ^ 63)"
definition maxDuration :: int where "maxDuration = 2 ^ 63 - 1"

definition Sub :: "int \<Rightarrow> int \<Rightarrow> int" where
  "Sub t u =
     (let d = t - u in
      if d > maxDuration then maxDuration
      else if d < minDuration then minDuration
      else d)"

definition Since :: "int \<Rightarrow> int \<Rightarrow> int" where
  "Since clock t = Sub clock t"

definition taskContext_CurrentState :: "lib \<Rightarrow> int \<Rightarrow> taskContext \<Rightarrow> string" where
  "taskContext_CurrentState L clock c =
     PrettyPrint L (Status_State (Task_Status (task c))) @ '' ''
       @ ToLower (HumanDuration L (Since clock (Status_Timestamp (Task_Status (task c))))) @ '' ago''"

definition taskContext_Error :: "lib \<Rightarrow> taskContext \<Rightarrow> string" where
  "taskContext_Error L c =
     (let taskErr = Status_Err (Task_Status (task c));
          taskErr = (if trunc c then Ellipsis L taskErr maxErrLength else taskErr)
      in if length taskErr > 0 then [dq] @ taskErr @ [dq] else taskErr)"

definition port_entry :: "PortConfig \<Rightarrow> string" where
  "port_entry pConfig =
     ''*:'' @ show_nat (unat (PublishedPort pConfig)) @ ''->'' @ show_nat (unat (TargetPort pConfig))
       @ ''/'' @ Protocol pConfig"

fun ports_loop :: "PortConfig list \<Rightarrow> string list \<Rightarrow> string list" where
  "ports_loop [] ports = ports"
| "ports_loop (pConfig # rest) ports = ports_loop rest (ports @ [port_entry pConfig])"

definition taskContext_Ports :: "taskContext \<Rightarrow> string" where
  "taskContext_Ports c =
     (if length (PortStatus_Ports (Task_Status (task c))) = 0 then ''''
      else Join (ports_loop (PortStatus_Ports (Task_Status (task c))) []) '','')"

section \<open>Package formatter: the render context\<close>

subsection \<open>Entity views\<close>

text \<open>
  An entity view is a receiver with named accessors without arguments. The model keeps
  the accessors of a kind in a table, in the order the source declares them.
\<close>

type_synonym 'r accessors = "(string \<times> ('r \<Rightarrow> string)) list"

text \<open>What the template evaluator does for \<open>{{.Field}}\<close>: it calls the accessor of that name.\<close>

definition call_accessor :: "'r accessors \<Rightarrow> 'r \<Rightarrow> string \<Rightarrow> string option" where
  "call_accessor ms recv field = map_option (\<lambda>m. m recv) (map_of ms field)"

text \<open>
  Modelled from the spec: \<open>formatter.MarshalJSON\<close>, to which \<open>taskContext.MarshalJSON\<close>
  and \<open>checkpointContext.MarshalJSON\<close> delegate. It builds the mapping from every
  declared accessor name to the string the accessor returns; that mapping is what
  \<open>{{json .}}\<close> serialises.
\<close>

definition MarshalJSON :: "'r accessors \<Rightarrow> 'r \<Rightarrow> (string \<times> string) list" where
  "MarshalJSON ms recv = map (\<lambda>(field, m). (field, m recv)) ms"

text \<open>What the evaluator sees of a view: its accessors by name, and its JSON mapping.\<close>

record SubContext =
  sub_call :: "string \<Rightarrow> string option"
  sub_json :: "(string \<times> string) list"

definition subContext :: "'r accessors \<Rightarrow> 'r \<Rightarrow> SubContext" where
  "subContext ms recv = \<lparr>sub_call = call_accessor ms recv, sub_json = MarshalJSON ms recv\<rparr>"

text \<open>
  Modelled from the spec: the view for the header row. The header of a kind maps
  accessor names to column titles (\<open>SubHeaderContext\<close>); for the header row the
  template runs on the titles, in upper case, in place of the values.
\<close>

definition headerContext :: "(string \<times> string) list \<Rightarrow> SubContext" where
  "headerContext header =
     \<lparr>sub_call = map_option ToUpper \<circ> map_of header, sub_json = []\<rparr>"

subsection \<open>The template evaluator\<close>

text \<open>
  The evaluator of the template language is an outside capability and a parameter of
  the model: \<open>Parse\<close> compiles a template or answers with the text of its error,
  \<open>Execute\<close> runs a compiled template on a view and yields the text of the row or the
  text of its error.
\<close>

record 't evaluator =
  Parse :: "string \<Rightarrow> string + 't"
  Execute :: "'t \<Rightarrow> SubContext \<Rightarrow> string + string"

subsection \<open>Context and Write\<close>

text \<open>
  \<open>formatter.Context\<close>, with the fields the sources set and read: \<open>Format\<close>,
  \<open>Trunc\<close> and \<open>Output\<close>. The sink is modelled by the bytes written to it so far.
\<close>

record Context =
  Format :: string
  Trunc :: bool
  Output :: string

text \<open>
  Modelled from the spec: the table layout is selected by the alias "table", alone or
  followed by an inline column template; the alias "json" stands for \<open>{{json .}}\<close>.
\<close>

definition JSONFormatKey :: string where "JSONFormatKey = ''json''"

definition IsTable :: "string \<Rightarrow> bool" where
  "IsTable f = HasPrefix f TableFormatKey"

text \<open>The two helpers of \<open>preFormat\<close> below.\<close>

fun unescape :: "string \<Rightarrow> string" where
  "unescape [] = []"
| "unescape [c] = [c]"
| "unescape (c # d # cs) =
     (if c = bs \<and> d = CHR ''t'' then tab # unescape cs
      else if c = bs \<and> d = CHR ''n'' then nl # unescape cs
      else c # unescape (d # cs))"

definition trim_spaces :: "string \<Rightarrow> string" where
  "trim_spaces s = rev (dropWhile (\<lambda>c. c = CHR '' '') (rev (dropWhile (\<lambda>c. c = CHR '' '') s)))"

text \<open>
  Modelled from the spec: the template that is compiled for a format. For a table
  format it is the column template after the alias; the two-character sequences
  backslash-t and backslash-n of a format stand for a tab and a line break (the raw
  formats are written with them, and their output has the line breaks).
\<close>

definition preFormat :: "string \<Rightarrow> string" where
  "preFormat f =
     (let f1 = (if IsTable f then drop (length TableFormatKey) f else f);
          f2 = (if f = JSONFormatKey then ''{{json .}}'' else f1)
      in unescape (trim_spaces f2))"

text \<open>
  Modelled from the spec: a failure of the evaluator reaches the caller as a
  \<open>template parsing error\<close> that carries the evaluator's own text, in the form that the
  tests of the network formatter expect.
\<close>

definition template_error :: "string \<Rightarrow> string" where
  "template_error e = ''template parsing error: '' @ e"

text \<open>
  Modelled from the spec: the step of \<open>Context.Write\<close> for one entity. The template
  runs on the entity's view and the row goes to the sink, ended by a line break; a
  failure aborts with the evaluator's text and writes nothing for this entity. The
  result is the error, if any, and the sink afterwards.
\<close>

definition contextFormat ::
  "'t evaluator \<Rightarrow> 't \<Rightarrow> SubContext \<Rightarrow> string \<Rightarrow> string option \<times> string" where
  "contextFormat E tmpl sub out =
     (case Execute E tmpl sub of
        Inl e \<Rightarrow> (Some (template_error e), out)
      | Inr row \<Rightarrow> (None, out @ row @ [nl]))"

text \<open>
  Modelled from the spec: the header row of a table, the column template run on the
  titles of the kind. A template that cannot run on the titles gives an empty row.
\<close>

definition header_row :: "'t evaluator \<Rightarrow> 't \<Rightarrow> (string \<times> string) list \<Rightarrow> string" where
  "header_row E tmpl header =
     (case Execute E tmpl (headerContext header) of Inl e \<Rightarrow> [] | Inr row \<Rightarrow> row)"

text \<open>
  Modelled from the spec: \<open>Context.Write\<close>.
  \<^enum> The resolved format is compiled; a failure is returned at once and nothing is
    written.
  \<^enum> For a table format the header row is written, once, before the rows.
  \<^enum> The callback \<open>f\<close> of the entity kind gets the per-entity step and runs it on
    each of its entities; rows are separated as the template says (the alignment of
    the columns of a table into equal widths is left out: cells stay separated by the
    tab of the template).
  The context carries no quiet flag: quiet mode acts through the format that the
  resolver returned.
\<close>

definition Write ::
  "'t evaluator \<Rightarrow> Context \<Rightarrow> (string \<times> string) list
     \<Rightarrow> ((SubContext \<Rightarrow> string \<Rightarrow> string option \<times> string) \<Rightarrow> string \<Rightarrow> string option \<times> string)
     \<Rightarrow> string option \<times> string" where
  "Write E ctx header f =
     (case Parse E (preFormat (Format ctx)) of
        Inl e \<Rightarrow> (Some (template_error e), Output ctx)
      | Inr tmpl \<Rightarrow>
          f (contextFormat E tmpl)
            (if IsTable (Format ctx) then Output ctx @ header_row E tmpl header @ [nl]
             else Output ctx))"

section \<open>Package task: FormatWrite\<close>

text \<open>The accessors of \<open>taskContext\<close>, in the order of the source.\<close>

definition taskContext_accessors :: "lib \<Rightarrow> int \<Rightarrow> taskContext accessors" where
  "taskContext_accessors L clock =
     [(''ID'', taskContext_ID L),
      (''Name'', taskContext_Name),
      (''Image'', taskContext_Image L),
      (''Node'', taskContext_Node),
      (''DesiredState'', taskContext_DesiredState L),
      (''CurrentState'', taskContext_CurrentState L clock),
      (''Error'', taskContext_Error L),
      (''Ports'', taskContext_Ports)]"

definition taskContext_Header :: "lib \<Rightarrow> (string \<times> string) list" where
  "taskContext_Header L =
     [(''ID'', taskIDHeader),
      (''Name'', NameHeader L),
      (''Image'', ImageHeader L),
      (''Node'', nodeHeader),
      (''DesiredState'', desiredStateHeader),
      (''CurrentState'', currentStateHeader),
      (''Error'', ErrorHeader L),
      (''Ports'', PortsHeader L)]"

text \<open>Reading a Go \<open>map[string]string\<close> at a key it does not hold gives the empty string.\<close>

definition map_index :: "(string \<rightharpoonup> string) \<Rightarrow> string \<Rightarrow> string" where
  "map_index m k = (case m k of None \<Rightarrow> [] | Some v \<Rightarrow> v)"

text \<open>The closure \<open>render\<close> of \<open>FormatWrite\<close>: the loop over the tasks stops at the first error.\<close>

fun render_tasks ::
  "lib \<Rightarrow> int \<Rightarrow> Context \<Rightarrow> (string \<rightharpoonup> string) \<Rightarrow> (string \<rightharpoonup> string) \<Rightarrow> Task list
     \<Rightarrow> (SubContext \<Rightarrow> string \<Rightarrow> string option \<times> string) \<Rightarrow> string \<Rightarrow> string option \<times> string" where
  "render_tasks L clock ctx names nodes [] format out = (None, out)"
| "render_tasks L clock ctx names nodes (t # tasks) format out =
     (let taskCtx = \<lparr>trunc = Trunc ctx, task = t, name = map_index names (Task_ID t),
                      node = map_index nodes (Task_ID t)\<rparr>
      in case format (subContext (taskContext_accessors L clock) taskCtx) out of
           (Some err, out') \<Rightarrow> (Some err, out')
         | (None, out') \<Rightarrow> render_tasks L clock ctx names nodes tasks format out')"

definition task_FormatWrite ::
  "'t evaluator \<Rightarrow> lib \<Rightarrow> int \<Rightarrow> Context \<Rightarrow> Task list \<Rightarrow> (string \<rightharpoonup> string) \<Rightarrow> (string \<rightharpoonup> string)
     \<Rightarrow> string option \<times> string" where
  "task_FormatWrite E L clock ctx tasks names nodes =
     Write E ctx (taskContext_Header L) (render_tasks L clock ctx names nodes tasks)"

section \<open>Package checkpoint\<close>

definition defaultCheckpointFormat :: string where
  "defaultCheckpointFormat = ''table {{.Name}}''"

definition checkpointNameHeader :: string where
  "checkpointNameHeader = ''CHECKPOINT NAME''"

definition NewFormat :: "string \<Rightarrow> string" where
  "NewFormat source = (if source = TableFormatKey then defaultCheckpointFormat else source)"

text \<open>\<open>checkpoint.Summary\<close> has the one field \<open>Name\<close>.\<close>

record Summary =
  Summary_Name :: string

record checkpointContext =
  ctx_c :: Summary

definition checkpointContext_Name :: "checkpointContext \<Rightarrow> string" where
  "checkpointContext_Name c = Summary_Name (ctx_c c)"

definition checkpointContext_accessors :: "checkpointContext accessors" where
  "checkpointContext_accessors = [(''Name'', checkpointContext_Name)]"

definition newCheckpointContext :: "(string \<times> string) list" where
  "newCheckpointContext = [(''Name'', checkpointNameHeader)]"

fun render_checkpoints ::
  "Summary list \<Rightarrow> (SubContext \<Rightarrow> string \<Rightarrow> string option \<times> string) \<Rightarrow> string
     \<Rightarrow> string option \<times> string" where
  "render_checkpoints [] format out = (None, out)"
| "render_checkpoints (cp # checkpoints) format out =
     (case format (subContext checkpointContext_accessors \<lparr>ctx_c = cp\<rparr>) out of
        (Some err, out') \<Rightarrow> (Some err, out')
      | (None, out') \<Rightarrow> render_checkpoints checkpoints format out')"

definition checkpoint_FormatWrite ::
  "'t evaluator \<Rightarrow> Context \<Rightarrow> Summary list \<Rightarrow> string option \<times> string" where
  "checkpoint_FormatWrite E ctx checkpoints =
     Write E ctx newCheckpointContext (render_checkpoints checkpoints)"

section \<open>Package service: the ps command\<close>

text \<open>
  \<open>filters.Args\<close> holds, for every key, a set of values: it is a set of pairs of a key
  and a value, and \<open>Add\<close> puts one pair in.
\<close>

type_synonym Args = "(string \<times> string) set"

definition NewArgs :: Args where
  "NewArgs = {}"

definition Add :: "Args \<Rightarrow> string \<Rightarrow> string \<Rightarrow> Args" where
  "Add args k v = insert (k, v) args"

text \<open>Of \<open>swarm.Service\<close> the command reads \<open>ID\<close> and \<open>Spec.Annotations.Name\<close>.\<close>

record Service =
  Service_ID :: string
  Spec_Annotations_Name :: string

record psOptions =
  opt_services :: "string list"
  opt_quiet :: bool
  opt_noResolve :: bool
  opt_noTrunc :: bool
  opt_format :: string
  opt_filter :: Args

subsection \<open>createFilter\<close>

text \<open>The first loop: one \<open>id\<close> entry and one \<open>name\<close> entry per requested service.\<close>

fun service_filters :: "string list \<Rightarrow> Args \<times> Args \<Rightarrow> Args \<times> Args" where
  "service_filters [] (serviceIDFilter, serviceNameFilter) = (serviceIDFilter, serviceNameFilter)"
| "service_filters (service # rest) (serviceIDFilter, serviceNameFilter) =
     service_filters rest (Add serviceIDFilter ''id'' service, Add serviceNameFilter ''name'' service)"

text \<open>
  The three inner loops of the matching loop. The first two leave at their first hit
  (\<open>continue loop\<close>) with the ID of the service that was hit.
\<close>

fun match_full_id :: "string \<Rightarrow> Service list \<Rightarrow> string option" where
  "match_full_id service [] = None"
| "match_full_id service (s # rest) =
     (if Service_ID s = service then Some (Service_ID s) else match_full_id service rest)"

fun match_full_name :: "string \<Rightarrow> Service list \<Rightarrow> string option" where
  "match_full_name service [] = None"
| "match_full_name service (s # rest) =
     (if Spec_Annotations_Name s = service then Some (Service_ID s) else match_full_name service rest)"

text \<open>
  The third runs to the end of the list, unless it meets a second service with the
  prefix: then \<open>createFilter\<close> returns, with the filter as it is at that moment.
\<close>

fun match_id_prefix ::
  "string \<Rightarrow> Service list \<Rightarrow> Args \<times> nat \<times> bool \<Rightarrow> (Args \<times> string) + (Args \<times> nat \<times> bool)" where
  "match_id_prefix service [] (filt, serviceCount, found) = Inr (filt, serviceCount, found)"
| "match_id_prefix service (s # rest) (filt, serviceCount, found) =
     (if HasPrefix (Service_ID s) service then
        (if found then Inl (filt, ''multiple services found with provided prefix: '' @ service)
         else match_id_prefix service rest (Add filt ''service'' (Service_ID s), serviceCount + 1, True))
      else match_id_prefix service rest (filt, serviceCount, found))"

fun match_loop ::
  "Service list \<Rightarrow> Service list \<Rightarrow> string list \<Rightarrow> Args \<times> string list \<times> nat
     \<Rightarrow> (Args \<times> string) + (Args \<times> string list \<times> nat)" where
  "match_loop serviceByIDList serviceByNameList [] (filt, notfound, serviceCount) =
     Inr (filt, notfound, serviceCount)"
| "match_loop serviceByIDList serviceByNameList (service # rest) (filt, notfound, serviceCount) =
     (case match_full_id service serviceByIDList of
        Some sid \<Rightarrow>
          match_loop serviceByIDList serviceByNameList rest
            (Add filt ''service'' sid, notfound, serviceCount + 1)
      | None \<Rightarrow>
          (case match_full_name service serviceByNameList of
             Some sid \<Rightarrow>
               match_loop serviceByIDList serviceByNameList rest
                 (Add filt ''service'' sid, notfound, serviceCount + 1)
           | None \<Rightarrow>
               (case match_id_prefix service serviceByIDList (filt, serviceCount, False) of
                  Inl failed \<Rightarrow> Inl failed
                | Inr (filt', serviceCount', found) \<Rightarrow>
                    match_loop serviceByIDList serviceByNameList rest
                      (filt',
                       (if \<not> found then notfound @ [''no such service: '' @ service] else notfound),
                       serviceCount'))))"

text \<open>
  \<open>createFilter\<close>. The engine is the parameter \<open>ServiceList\<close>: from the filter of a
  listing to its services or its error. The result is the triple of the Go function:
  the filter, the not-found list (\<open>nil\<close> is the empty list) and the error (\<open>nil\<close> is
  \<open>None\<close>).
\<close>

definition createFilter ::
  "(Args \<Rightarrow> string + Service list) \<Rightarrow> psOptions \<Rightarrow> Args \<times> string list \<times> string option" where
  "createFilter ServiceList options =
     (let filt = opt_filter options;
          (serviceIDFilter, serviceNameFilter) = service_filters (opt_services options) (NewArgs, NewArgs)
      in case ServiceList serviceIDFilter of
           Inl err \<Rightarrow> (filt, [], Some err)
         | Inr serviceByIDList \<Rightarrow>
             (case ServiceList serviceNameFilter of
                Inl err \<Rightarrow> (filt, [], Some err)
              | Inr serviceByNameList \<Rightarrow>
                  (case match_loop serviceByIDList serviceByNameList (opt_services options) (filt, [], 0) of
                     Inl (filt', err) \<Rightarrow> (filt', [], Some err)
                   | Inr (filt', notfound, serviceCount) \<Rightarrow>
                       if serviceCount = 0 then (filt', [], Some (Join notfound [nl]))
                       else (filt', notfound, None))))"

subsection \<open>createFilter, as its contract words it\<close>

text \<open>
  How one requested name resolves against the two listings: by full ID first, then by
  full name, then by an ID prefix, which has to be unique.
\<close>

datatype resolution = Matched string | Ambiguous string | NotFound

definition resolve :: "Service list \<Rightarrow> Service list \<Rightarrow> string \<Rightarrow> resolution" where
  "resolve serviceByIDList serviceByNameList service =
     (if service \<in> Service_ID ` set serviceByIDList then Matched service
      else case find (\<lambda>s. Spec_Annotations_Name s = service) serviceByNameList of
             Some s \<Rightarrow> Matched (Service_ID s)
           | None \<Rightarrow>
               (case filter (\<lambda>s. HasPrefix (Service_ID s) service) serviceByIDList of
                  [] \<Rightarrow> NotFound
                | [s] \<Rightarrow> Matched (Service_ID s)
                | s # s' # others \<Rightarrow> Ambiguous (Service_ID s)))"

definition matched_ids :: "resolution list \<Rightarrow> string list" where
  "matched_ids rs = concat (map (\<lambda>r. case r of Matched sid \<Rightarrow> [sid] | _ \<Rightarrow> []) rs)"

definition is_ambiguous :: "resolution \<Rightarrow> bool" where
  "is_ambiguous r = (case r of Ambiguous sid \<Rightarrow> True | _ \<Rightarrow> False)"

definition createFilter_contract ::
  "Service list \<Rightarrow> Service list \<Rightarrow> psOptions \<Rightarrow> Args \<times> string list \<times> string option" where
  "createFilter_contract serviceByIDList serviceByNameList options =
     (let names = opt_services options;
          settled = takeWhile (\<lambda>n. \<not> is_ambiguous (resolve serviceByIDList serviceByNameList n)) names;
          ids = matched_ids (map (resolve serviceByIDList serviceByNameList) settled);
          filt = opt_filter options \<union> (\<lambda>sid. (''service'', sid)) ` set ids;
          notfound = map (\<lambda>n. ''no such service: '' @ n)
                       (filter (\<lambda>n. resolve serviceByIDList serviceByNameList n = NotFound) settled)
      in case dropWhile (\<lambda>n. \<not> is_ambiguous (resolve serviceByIDList serviceByNameList n)) names of
           n # later \<Rightarrow>
             (filt \<union> (case resolve serviceByIDList serviceByNameList n of
                        Ambiguous sid \<Rightarrow> {(''service'', sid)} | _ \<Rightarrow> {}),
              [], Some (''multiple services found with provided prefix: '' @ n))
         | [] \<Rightarrow>
             if ids = [] then (filt, [], Some (Join notfound [nl]))
             else (filt, notfound, None))"

subsection \<open>runPS, from the choice of the format on\<close>

text \<open>
  Modelled from the spec: \<open>task.Print\<close>. The requested format is resolved for the task
  kind with the quiet flag, and the tasks are rendered into the sink with the
  truncation flag. The names of the tasks and of their nodes, which \<open>Print\<close> asks the
  engine for, are arguments.
\<close>

definition task_Print ::
  "'t evaluator \<Rightarrow> lib \<Rightarrow> int \<Rightarrow> string \<Rightarrow> (string \<rightharpoonup> string) \<Rightarrow> (string \<rightharpoonup> string)
     \<Rightarrow> Task list \<Rightarrow> bool \<Rightarrow> bool \<Rightarrow> string \<Rightarrow> string option \<times> string" where
  "task_Print E L clock out names nodes tasks trunc' quiet format =
     task_FormatWrite E L clock \<lparr>Format = NewTaskFormat format quiet, Trunc = trunc', Output = out\<rparr>
       tasks names nodes"

text \<open>
  The part of \<open>runPS\<close> after the task list has arrived. \<open>task.DefaultFormat\<close> (with the
  configuration file fixed, a function of the quiet flag) and \<open>task.Print\<close> are
  parameters; \<open>Print\<close> gets the tasks, the truncation flag, the quiet flag and the
  format, and answers with its error and the sink.
\<close>

definition runPS_print ::
  "(bool \<Rightarrow> string) \<Rightarrow> (Task list \<Rightarrow> bool \<Rightarrow> bool \<Rightarrow> string \<Rightarrow> string option \<times> string)
     \<Rightarrow> psOptions \<Rightarrow> Task list \<Rightarrow> string list \<Rightarrow> string option \<times> string" where
  "runPS_print DefaultFormat Print options tasks notfound =
     (let format = opt_format options;
          format = (if length format = 0 then DefaultFormat (opt_quiet options) else format);
          options = (if opt_quiet options then options\<lparr>opt_noTrunc := True\<rparr> else options)
      in case Print tasks (\<not> opt_noTrunc options) (opt_quiet options) format of
           (Some err, out) \<Rightarrow> (Some err, out)
         | (None, out) \<Rightarrow>
             if length notfound \<noteq> 0 then (Some (Join notfound [nl]), out) else (None, out))"

section \<open>Labels of a network\<close>

text \<open>
  Modelled from the spec: the \<open>Labels\<close> accessor of a network view, the comma-joined
  \<open>key=value\<close> entries of the labels. The labels are a Go \<open>map[string]string\<close>, that
  is a finite mapping without an order of its own: the loop over it visits every key
  once, in an order that is not fixed. That order is the argument \<open>visit\<close>.
\<close>

definition label_entry :: "(string \<rightharpoonup> string) \<Rightarrow> string \<Rightarrow> string" where
  "label_entry labels k = k @ ''='' @ map_index labels k"

definition networkContext_Labels :: "(string \<rightharpoonup> string) \<Rightarrow> string list \<Rightarrow> string" where
  "networkContext_Labels labels visit = Join (map (label_entry labels) visit) '',''"

definition visits :: "(string \<rightharpoonup> string) \<Rightarrow> string list \<Rightarrow> bool" where
  "visits labels visit = (distinct visit \<and> set visit = dom labels)"

section \<open>The shape of the default formats\<close>

text \<open>
  A column template has one \<open>{{.Field}}\<close> per column, separated by tabs; a raw block
  has one line \<open>key: {{.Field}}\<close> per field, each ended by the two characters
  backslash and n.
\<close>

definition field_ref :: "string \<Rightarrow> string" where
  "field_ref f = ''{{.'' @ f @ ''}}''"

definition column_template :: "string list \<Rightarrow> string" where
  "column_template fs = Join (map field_ref fs) [tab]"

definition raw_block :: "(string \<times> string) list \<Rightarrow> string" where
  "raw_block kfs = concat (map (\<lambda>(k, f). k @ '': '' @ field_ref f @ [bs] @ ''n'') kfs)"

definition task_raw_keys :: "string list" where
  "task_raw_keys =
     [''id'', ''name'', ''image'', ''node'', ''desired_state'', ''current_state'', ''error'', ''ports'']"

section \<open>An evaluator for text and field references\<close>

text \<open>
  The smallest evaluator that the formats of the task and checkpoint kinds need: a
  template is text with actions \<open>{{.Field}}\<close>. It registers no function, so the call
  of any name is the call of an undefined function, and it reports it in the words of
  the Go template package. It serves as the instance on which the properties below are
  run.
\<close>

datatype piece = Lit string | Act string | Unclosed

fun scan_text :: "string \<Rightarrow> string \<Rightarrow> piece list"
  and scan_action :: "string \<Rightarrow> string \<Rightarrow> piece list" where
  "scan_text acc [] = [Lit (rev acc)]"
| "scan_text acc [c] = [Lit (rev (c # acc))]"
| "scan_text acc (c # d # cs) =
     (if c = CHR ''{'' \<and> d = CHR ''{'' then Lit (rev acc) # scan_action [] cs
      else scan_text (c # acc) (d # cs))"
| "scan_action acc [] = [Unclosed]"
| "scan_action acc [c] = [Unclosed]"
| "scan_action acc (c # d # cs) =
     (if c = CHR ''}'' \<and> d = CHR ''}'' then Act (rev acc) # scan_text [] cs
      else scan_action (c # acc) (d # cs))"

datatype node = Text string | Field string

definition is_letter :: "char \<Rightarrow> bool" where
  "is_letter c = (c \<in> set upper_letters \<or> c \<in> set lower_letters \<or> c = CHR ''_'')"

definition template_at :: "nat \<Rightarrow> string" where
  "template_at line = ''template: :'' @ show_nat line @ '': ''"

definition count_lines :: "string \<Rightarrow> nat" where
  "count_lines s = length (filter (\<lambda>c. c = nl) s)"

definition parse_action :: "nat \<Rightarrow> string \<Rightarrow> string + node" where
  "parse_action line act =
     (case trim_spaces act of
        [] \<Rightarrow> Inl (template_at line @ ''missing value for command'')
      | c # cs \<Rightarrow>
          if c = CHR ''.'' \<and> cs \<noteq> [] \<and> list_all is_letter cs then Inr (Field cs)
          else if is_letter c then
            Inl (template_at line @ ''function '' @ [dq] @ takeWhile is_letter (c # cs) @ [dq]
                   @ '' not defined'')
          else Inl (template_at line @ ''unexpected '' @ [dq] @ [c] @ [dq] @ '' in command''))"

fun parse_pieces :: "nat \<Rightarrow> piece list \<Rightarrow> string + node list" where
  "parse_pieces line [] = Inr []"
| "parse_pieces line (Lit s # ps) =
     (case parse_pieces (line + count_lines s) ps of
        Inl e \<Rightarrow> Inl e
      | Inr ns \<Rightarrow> Inr (if s = [] then ns else Text s # ns))"
| "parse_pieces line (Act a # ps) =
     (case parse_action (line + count_lines a) a of
        Inl e \<Rightarrow> Inl e
      | Inr n \<Rightarrow>
          (case parse_pieces (line + count_lines a) ps of
             Inl e \<Rightarrow> Inl e
           | Inr ns \<Rightarrow> Inr (n # ns)))"
| "parse_pieces line (Unclosed # ps) = Inl (template_at line @ ''unclosed action'')"

definition field_Parse :: "string \<Rightarrow> string + node list" where
  "field_Parse s = parse_pieces 1 (scan_text [] s)"

fun field_Execute :: "node list \<Rightarrow> SubContext \<Rightarrow> string + string" where
  "field_Execute [] sub = Inr []"
| "field_Execute (Text s # ns) sub =
     (case field_Execute ns sub of Inl e \<Rightarrow> Inl e | Inr row \<Rightarrow> Inr (s @ row))"
| "field_Execute (Field f # ns) sub =
     (case sub_call sub f of
        None \<Rightarrow> Inl (''template: :1: cannot evaluate field '' @ f)
      | Some v \<Rightarrow>
          (case field_Execute ns sub of Inl e \<Rightarrow> Inl e | Inr row \<Rightarrow> Inr (v @ row)))"

definition field_evaluator :: "node list evaluator" where
  "field_evaluator = \<lparr>Parse = field_Parse, Execute = field_Execute\<rparr>"

section \<open>Sample data\<close>

text \<open>
  An instance of the outside functions, for running the model. \<open>units_HumanDuration\<close>
  is \<open>units.HumanDuration\<close> of go-units with its divisions done on whole numbers;
  \<open>capitalizeFirst\<close> stands for \<open>formatter.PrettyPrint\<close> on a task state, the
  state with a capital first letter; \<open>Ellipsis_ascii\<close> stands for
  \<open>formatter.Ellipsis\<close> on ASCII text, where it keeps a text within the maximum length
  and cuts a longer one to one less than the maximum and the ellipsis sign (U+2026,
  three bytes in UTF-8). Text with other bytes is outside this instance, which hands
  it back as it is.
\<close>

definition units_HumanDuration :: "int \<Rightarrow> string" where
  "units_HumanDuration d =
     (let seconds = d div 1000000000;
          minutes = d div 60000000000;
          hours = (d + 1800000000000) div 3600000000000
      in if seconds < 1 then ''Less than a second''
         else if seconds = 1 then ''1 second''
         else if seconds < 60 then show_nat (nat seconds) @ '' seconds''
         else if minutes = 1 then ''About a minute''
         else if minutes < 60 then show_nat (nat minutes) @ '' minutes''
         else if hours = 1 then ''About an hour''
         else if hours < 48 then show_nat (nat hours) @ '' hours''
         else if hours < 24 * 7 * 2 then show_nat (nat (hours div 24)) @ '' days''
         else if hours < 24 * 30 * 2 then show_nat (nat (hours div 24 div 7)) @ '' weeks''
         else if hours < 24 * 365 * 2 then show_nat (nat (hours div 24 div 30)) @ '' months''
         else show_nat (nat (d div 3600000000000 div 24 div 365)) @ '' years'')"

definition capitalizeFirst :: "string \<Rightarrow> string" where
  "capitalizeFirst s =
     (case s of [] \<Rightarrow> [] | [c] \<Rightarrow> ToLower [c] | c # cs \<Rightarrow> ToUpper [c] @ ToLower cs)"

definition ellipsis_sign :: string where
  "ellipsis_sign = [CHR 0xE2, CHR 0x80, CHR 0xA6]"

definition Ellipsis_ascii :: "string \<Rightarrow> nat \<Rightarrow> string" where
  "Ellipsis_ascii s maxLen =
     (if list_all (\<lambda>c. \<not> digit7 c) s \<and> length s > maxLen
      then take (maxLen - 1) s @ ellipsis_sign
      else s)"

definition lib0 :: lib where
  "lib0 =
     \<lparr>HumanDuration = units_HumanDuration,
      PrettyPrint = capitalizeFirst, FamiliarTagged = (\<lambda>s. None),
      Ellipsis = Ellipsis_ascii, shortLen = 12,
      NameHeader = ''NAME'', ImageHeader = ''IMAGE'', ErrorHeader = ''ERROR'',
      PortsHeader = ''PORTS''\<rparr>"

definition task1 :: Task where
  "task1 =
     \<lparr>Task_ID = ''abcdefghijklmnopqrstuvwxy'', Spec_ContainerSpec_Image = ''nginx:latest'',
      Task_DesiredState = ''running'',
      Task_Status = \<lparr>Status_Timestamp = 0, Status_State = ''running'', Status_Err = [],
                      PortStatus_Ports = []\<rparr>\<rparr>"

definition task2 :: Task where
  "task2 =
     \<lparr>Task_ID = ''zyxwvutsrqponmlkjihgfedcb'', Spec_ContainerSpec_Image = ''redis:7'',
      Task_DesiredState = ''shutdown'',
      Task_Status = \<lparr>Status_Timestamp = 0, Status_State = ''failed'',
                      Status_Err = ''task: non-zero exit (1)'',
                      PortStatus_Ports = []\<rparr>\<rparr>"

definition task3 :: Task where
  "task3 =
     \<lparr>Task_ID = ''t3'', Spec_ContainerSpec_Image = ''busybox'',
      Task_DesiredState = ''running'',
      Task_Status = \<lparr>Status_Timestamp = 0, Status_State = ''rejected'',
                      Status_Err = ''no suitable node (scheduling constraints)'',
                      PortStatus_Ports = []\<rparr>\<rparr>"

definition task4 :: Task where
  "task4 =
     \<lparr>Task_ID = ''t4'', Spec_ContainerSpec_Image = ''coredns'',
      Task_DesiredState = ''running'',
      Task_Status = \<lparr>Status_Timestamp = 0, Status_State = ''running'', Status_Err = [],
                      PortStatus_Ports = [\<lparr>Protocol = ''tcp'', TargetPort = 80, PublishedPort = 8080\<rparr>,
                                          \<lparr>Protocol = ''udp'', TargetPort = 53, PublishedPort = 5353\<rparr>]\<rparr>\<rparr>"

definition names0 :: "string \<rightharpoonup> string" where
  "names0 = [''abcdefghijklmnopqrstuvwxy'' \<mapsto> ''web.1'', ''zyxwvutsrqponmlkjihgfedcb'' \<mapsto> ''cache.1'']"

definition nodes0 :: "string \<rightharpoonup> string" where
  "nodes0 = [''abcdefghijklmnopqrstuvwxy'' \<mapsto> ''node-a'', ''zyxwvutsrqponmlkjihgfedcb'' \<mapsto> ''node-b'']"

definition labels0 :: "string \<rightharpoonup> string" where
  "labels0 = [''label1'' \<mapsto> ''value1'', ''label2'' \<mapsto> ''value2'']"

definition services0 :: "Service list" where
  "services0 =
     [\<lparr>Service_ID = ''abc1'', Spec_Annotations_Name = ''web''\<rparr>,
      \<lparr>Service_ID = ''abd2'', Spec_Annotations_Name = ''db''\<rparr>,
      \<lparr>Service_ID = ''web'', Spec_Annotations_Name = ''cache''\<rparr>]"

definition engine0 :: "Args \<Rightarrow> string + Service list" where
  "engine0 args = Inr services0"

definition opts0 :: psOptions where
  "opts0 =
     \<lparr>opt_services = [''web'', ''db'', ''abc'', ''zzz''], opt_quiet = True, opt_noResolve = False,
      opt_noTrunc = False, opt_format = [], opt_filter = {}\<rparr>"

section \<open>Properties of createFilter\<close>

lemma match_full_id_eq:
  "match_full_id service ss = (if service \<in> Service_ID ` set ss then Some service else None)"
  by (induction ss) auto

lemma match_full_name_eq:
  "match_full_name service ss =
     map_option Service_ID (find (\<lambda>s. Spec_Annotations_Name s = service) ss)"
  by (induction ss) auto

lemma match_id_prefix_found:
  "match_id_prefix service ss (F, n, True) =
     (case filter (\<lambda>s. HasPrefix (Service_ID s) service) ss of
        [] \<Rightarrow> Inr (F, n, True)
      | s # others \<Rightarrow> Inl (F, ''multiple services found with provided prefix: '' @ service))"
  by (induction ss) auto

lemma match_id_prefix_fresh:
  "match_id_prefix service ss (F, n, False) =
     (case filter (\<lambda>s. HasPrefix (Service_ID s) service) ss of
        [] \<Rightarrow> Inr (F, n, False)
      | [s] \<Rightarrow> Inr (Add F ''service'' (Service_ID s), n + 1, True)
      | s # s' # others \<Rightarrow>
          Inl (Add F ''service'' (Service_ID s), ''multiple services found with provided prefix: '' @ service))"
  by (induction ss) (auto simp: match_id_prefix_found split: list.splits)

lemma match_loop_step:
  "match_loop byId byName (service # rest) (F, nf, cnt) =
     (case resolve byId byName service of
        Matched sid \<Rightarrow> match_loop byId byName rest (Add F ''service'' sid, nf, cnt + 1)
      | NotFound \<Rightarrow> match_loop byId byName rest (F, nf @ [''no such service: '' @ service], cnt)
      | Ambiguous sid \<Rightarrow>
          Inl (Add F ''service'' sid, ''multiple services found with provided prefix: '' @ service))"
  by (auto simp: match_full_id_eq match_full_name_eq match_id_prefix_fresh resolve_def
      split: option.splits list.splits)

lemma match_loop_eq:
  "match_loop byId byName names (F, nf, cnt) =
     (let settled = takeWhile (\<lambda>n. \<not> is_ambiguous (resolve byId byName n)) names;
          ids = matched_ids (map (resolve byId byName) settled);
          F' = F \<union> (\<lambda>sid. (''service'', sid)) ` set ids
      in case dropWhile (\<lambda>n. \<not> is_ambiguous (resolve byId byName n)) names of
           n # later \<Rightarrow>
             Inl (F' \<union> (case resolve byId byName n of Ambiguous sid \<Rightarrow> {(''service'', sid)} | _ \<Rightarrow> {}),
                  ''multiple services found with provided prefix: '' @ n)
         | [] \<Rightarrow>
             Inr (F', nf @ map (\<lambda>n. ''no such service: '' @ n)
                            (filter (\<lambda>n. resolve byId byName n = NotFound) settled),
                  cnt + length ids))"
proof (induction names arbitrary: F nf cnt)
  case Nil
  then show ?case by (simp add: matched_ids_def)
next
  case (Cons service rest)
  let ?P = "\<lambda>n. \<not> is_ambiguous (resolve byId byName n)"
  note IH = Cons.IH
  show ?case
  proof (cases "resolve byId byName service")
    case (Matched sid)
    then have tw: "takeWhile ?P (service # rest) = service # takeWhile ?P rest"
      and dw: "dropWhile ?P (service # rest) = dropWhile ?P rest"
      by (simp_all add: is_ambiguous_def)
    show ?thesis
    proof (cases "dropWhile ?P rest")
      case Nil
      show ?thesis
        unfolding match_loop_step IH Let_def tw dw Nil using Matched
        by (simp add: matched_ids_def Add_def)
    next
      case (Cons n later)
      show ?thesis
        unfolding match_loop_step IH Let_def tw dw Cons using Matched
        by (simp add: matched_ids_def Add_def)
    qed
  next
    case (Ambiguous sid)
    then have tw: "takeWhile ?P (service # rest) = []"
      and dw: "dropWhile ?P (service # rest) = service # rest"
      by (simp_all add: is_ambiguous_def)
    show ?thesis
      unfolding match_loop_step Let_def tw dw using Ambiguous
      by (simp add: matched_ids_def Add_def)
  next
    case NotFound
    then have tw: "takeWhile ?P (service # rest) = service # takeWhile ?P rest"
      and dw: "dropWhile ?P (service # rest) = dropWhile ?P rest"
      by (simp_all add: is_ambiguous_def)
    show ?thesis
    proof (cases "dropWhile ?P rest")
      case Nil
      show ?thesis
        unfolding match_loop_step IH Let_def tw dw Nil using NotFound
        by (simp add: matched_ids_def Add_def)
    next
      case (Cons n later)
      show ?thesis
        unfolding match_loop_step IH Let_def tw dw Cons using NotFound
        by (simp add: matched_ids_def Add_def)
    qed
  qed
qed

text \<open>
  Claim C10. When both listings of the engine succeed, \<open>createFilter\<close> does what its
  contract says, for every list of requested names: each name resolves by full ID
  first, then by full name, then by a unique ID prefix; the first name whose prefix
  fits more than one service ends the call with the error
  \<open>multiple services found with provided prefix: <name>\<close>, and nothing is added for
  the names after it; a name that fits nothing goes to the not-found list; and when
  no name was matched at all, the error joins the \<open>no such service: <name>\<close> messages.
\<close>

theorem createFilter_meets_contract:
  assumes "service_filters (opt_services options) (NewArgs, NewArgs) = (serviceIDFilter, serviceNameFilter)"
    and "ServiceList serviceIDFilter = Inr serviceByIDList"
    and "ServiceList serviceNameFilter = Inr serviceByNameList"
  shows "createFilter ServiceList options = createFilter_contract serviceByIDList serviceByNameList options"
proof -
  let ?P = "\<lambda>n. \<not> is_ambiguous (resolve serviceByIDList serviceByNameList n)"
  have run: "createFilter ServiceList options =
     (case match_loop serviceByIDList serviceByNameList (opt_services options) (opt_filter options, [], 0) of
        Inl (filt', err) \<Rightarrow> (filt', [], Some err)
      | Inr (filt', notfound, serviceCount) \<Rightarrow>
          if serviceCount = 0 then (filt', [], Some (Join notfound [nl]))
          else (filt', notfound, None))"
    using assms by (simp add: createFilter_def)
  show ?thesis
  proof (cases "dropWhile ?P (opt_services options)")
    case Nil
    show ?thesis
      unfolding run createFilter_contract_def match_loop_eq Let_def Nil by simp
  next
    case (Cons n later)
    show ?thesis
      unfolding run createFilter_contract_def match_loop_eq Let_def Cons by simp
  qed
qed

theorem createFilter_meets_contract_witness:
  "engine0 (fst (service_filters (opt_services opts0) (NewArgs, NewArgs))) = Inr services0
   \<and> engine0 (snd (service_filters (opt_services opts0) (NewArgs, NewArgs))) = Inr services0
   \<and> createFilter engine0 opts0 =
       ({(''service'', ''web''), (''service'', ''abd2''), (''service'', ''abc1'')},
        [''no such service: zzz''], None)"
proof -
  have filters: "service_filters (opt_services opts0) (NewArgs, NewArgs) =
      (fst (service_filters (opt_services opts0) (NewArgs, NewArgs)),
       snd (service_filters (opt_services opts0) (NewArgs, NewArgs)))"
    by simp
  have byId: "engine0 (fst (service_filters (opt_services opts0) (NewArgs, NewArgs))) = Inr services0"
    by (simp add: engine0_def)
  have byName: "engine0 (snd (service_filters (opt_services opts0) (NewArgs, NewArgs))) = Inr services0"
    by (simp add: engine0_def)
  have contract: "createFilter_contract services0 services0 opts0 =
       ({(''service'', ''web''), (''service'', ''abd2''), (''service'', ''abc1'')},
        [''no such service: zzz''], None)"
    by code_simp
  show ?thesis
    using createFilter_meets_contract [OF filters byId byName] byId byName contract by simp
qed

section \<open>Properties of the task accessors\<close>

lemma ports_loop_append: "ports_loop ps acc = acc @ map port_entry ps"
  by (induction ps arbitrary: acc) simp_all

text \<open>
  Claim C6. For every task view, the accessor \<open>Error\<close> returns the empty string when
  the error message of the task is empty. Otherwise it returns the message between
  double quotes, and with the truncation flag the message first goes through
  \<open>formatter.Ellipsis\<close> with the maximum length 30. Of that helper the statement
  needs only that it keeps the empty text empty and a text that is not empty not
  empty.
\<close>

theorem taskContext_Error_quoted:
  assumes "Ellipsis L [] maxErrLength = []"
    and "\<And>s. s \<noteq> [] \<Longrightarrow> Ellipsis L s maxErrLength \<noteq> []"
  shows "taskContext_Error L c =
     (let err = Status_Err (Task_Status (task c)) in
      if err = [] then []
      else if trunc c then [dq] @ Ellipsis L err 30 @ [dq]
      else [dq] @ err @ [dq])"
  using assms by (simp add: taskContext_Error_def maxErrLength_def Let_def)

lemma Ellipsis_ascii_empty: "Ellipsis lib0 [] maxErrLength = []"
  by (simp add: lib0_def Ellipsis_ascii_def)

lemma Ellipsis_ascii_not_empty: "s \<noteq> [] \<Longrightarrow> Ellipsis lib0 s maxErrLength \<noteq> []"
  by (simp add: lib0_def Ellipsis_ascii_def ellipsis_sign_def)

theorem taskContext_Error_quoted_witness:
  "Ellipsis lib0 [] maxErrLength = []
   \<and> taskContext_Error lib0 \<lparr>trunc = True, task = task1, name = [], node = []\<rparr> = []
   \<and> taskContext_Error lib0 \<lparr>trunc = True, task = task2, name = [], node = []\<rparr>
       = [dq] @ ''task: non-zero exit (1)'' @ [dq]
   \<and> taskContext_Error lib0 \<lparr>trunc = False, task = task3, name = [], node = []\<rparr>
       = [dq] @ ''no suitable node (scheduling constraints)'' @ [dq]
   \<and> taskContext_Error lib0 \<lparr>trunc = True, task = task3, name = [], node = []\<rparr>
       = [dq] @ ''no suitable node (scheduling '' @ ellipsis_sign @ [dq]"
  using taskContext_Error_quoted [OF Ellipsis_ascii_empty Ellipsis_ascii_not_empty,
      of "\<lparr>trunc = True, task = task1, name = [], node = []\<rparr>"]
    taskContext_Error_quoted [OF Ellipsis_ascii_empty Ellipsis_ascii_not_empty,
      of "\<lparr>trunc = True, task = task2, name = [], node = []\<rparr>"]
    taskContext_Error_quoted [OF Ellipsis_ascii_empty Ellipsis_ascii_not_empty,
      of "\<lparr>trunc = False, task = task3, name = [], node = []\<rparr>"]
    taskContext_Error_quoted [OF Ellipsis_ascii_empty Ellipsis_ascii_not_empty,
      of "\<lparr>trunc = True, task = task3, name = [], node = []\<rparr>"]
    Ellipsis_ascii_empty
  by (simp add: task1_def task2_def task3_def lib0_def Ellipsis_ascii_def)

text \<open>
  Claim C9, as amended. \<open>CurrentState\<close> renders the state of the task, a space, the
  wording of the time that has passed between the status timestamp and the reading of
  the machine's clock at the call, in lower case, and \<open> ago\<close>. The reference point is
  the clock, not a value that the caller passes in, and the time that has passed is
  a \<open>time.Duration\<close>: a difference beyond its range counts as the largest or the
  smallest duration.
\<close>

theorem CurrentState_since_clock:
  "taskContext_CurrentState L clock c =
     PrettyPrint L (Status_State (Task_Status (task c))) @ '' ''
       @ ToLower (HumanDuration L (Since clock (Status_Timestamp (Task_Status (task c))))) @ '' ago''
   \<and> Since clock (Status_Timestamp (Task_Status (task c))) =
       (if clock - Status_Timestamp (Task_Status (task c)) > 2 ^ 63 - 1 then 2 ^ 63 - 1
        else if clock - Status_Timestamp (Task_Status (task c)) < - (2 ^ 63) then - (2 ^ 63)
        else clock - Status_Timestamp (Task_Status (task c)))"
  by (simp add: taskContext_CurrentState_def Since_def Sub_def minDuration_def maxDuration_def Let_def)

lemmas sample_wording =
  lib0_def units_HumanDuration_def capitalizeFirst_def show_nat.simps digit_char_def
  ToLower_def ToUpper_def lower_char_def upper_char_def upper_letters_def lower_letters_def

theorem CurrentState_since_clock_witness:
  "taskContext_CurrentState lib0 5000000000 \<lparr>trunc = False, task = task1, name = [], node = []\<rparr>
     = ''Running 5 seconds ago''
   \<and> Since 5000000000 (Status_Timestamp (Task_Status task1)) = 5000000000
   \<and> taskContext_CurrentState lib0 63900000000000000000 \<lparr>trunc = False, task = task1, name = [], node = []\<rparr>
     = ''Running 292 years ago''
   \<and> Since 63900000000000000000 (Status_Timestamp (Task_Status task1)) = 9223372036854775807"
  using CurrentState_since_clock [of lib0 5000000000 "\<lparr>trunc = False, task = task1, name = [], node = []\<rparr>"]
    CurrentState_since_clock [of lib0 63900000000000000000 "\<lparr>trunc = False, task = task1, name = [], node = []\<rparr>"]
  by (simp add: task1_def sample_wording)

text \<open>
  Claim C9 as stated fails: the same task view, with everything the caller supplies
  unchanged, renders differently at two readings of the clock.
\<close>

theorem CurrentState_clock_counterexample:
  "taskContext_CurrentState lib0 5000000000 \<lparr>trunc = False, task = task1, name = [], node = []\<rparr>
     = ''Running 5 seconds ago''
   \<and> taskContext_CurrentState lib0 65000000000 \<lparr>trunc = False, task = task1, name = [], node = []\<rparr>
     = ''Running about a minute ago''
   \<and> taskContext_CurrentState lib0 5000000000 \<lparr>trunc = False, task = task1, name = [], node = []\<rparr>
     \<noteq> taskContext_CurrentState lib0 65000000000 \<lparr>trunc = False, task = task1, name = [], node = []\<rparr>"
  by (simp add: taskContext_CurrentState_def Since_def Sub_def minDuration_def maxDuration_def
      task1_def sample_wording)

text \<open>
  Claim C8, as amended. The accessor \<open>Ports\<close> joins with commas one entry
  \<open>*:<published>-><target>/<protocol>\<close> per port, in the order of the ports in the
  port status of the task, and is empty for an empty port list. The labels of a
  network are joined with commas as \<open>key=value\<close> entries in the order in which the
  loop visits the map; whatever that order, the entries are those of the labels.
\<close>

theorem collections_joined_in_visit_order:
  "taskContext_Ports c = Join (map port_entry (PortStatus_Ports (Task_Status (task c)))) '',''
   \<and> (PortStatus_Ports (Task_Status (task c)) = [] \<longrightarrow> taskContext_Ports c = [])
   \<and> networkContext_Labels labels visit = Join (map (label_entry labels) visit) '',''
   \<and> (visits labels visit \<longrightarrow>
        set (map (label_entry labels) visit) = label_entry labels ` dom labels)"
  by (simp add: taskContext_Ports_def ports_loop_append networkContext_Labels_def visits_def)

theorem collections_joined_in_visit_order_witness:
  "taskContext_Ports \<lparr>trunc = False, task = task4, name = [], node = []\<rparr> = ''*:8080->80/tcp,*:5353->53/udp''
   \<and> PortStatus_Ports (Task_Status task1) = []
   \<and> taskContext_Ports \<lparr>trunc = False, task = task1, name = [], node = []\<rparr> = []
   \<and> visits labels0 [''label2'', ''label1'']
   \<and> networkContext_Labels labels0 [''label2'', ''label1''] = ''label2=value2,label1=value1''"
  using collections_joined_in_visit_order [of "\<lparr>trunc = False, task = task4, name = [], node = []\<rparr>" labels0 "[''label2'', ''label1'']"]
    collections_joined_in_visit_order [of "\<lparr>trunc = False, task = task1, name = [], node = []\<rparr>" labels0 "[''label2'', ''label1'']"]
  by (auto simp add: task1_def task4_def port_entry_def show_nat.simps digit_char_def labels0_def
      visits_def label_entry_def map_index_def)

text \<open>
  Claim C8 as stated fails for labels: a map has no insertion order, and two visits
  of the same labels give two different strings.
\<close>

theorem labels_order_counterexample:
  "visits labels0 [''label1'', ''label2'']
   \<and> visits labels0 [''label2'', ''label1'']
   \<and> networkContext_Labels labels0 [''label1'', ''label2''] = ''label1=value1,label2=value2''
   \<and> networkContext_Labels labels0 [''label2'', ''label1''] = ''label2=value2,label1=value1''
   \<and> networkContext_Labels labels0 [''label1'', ''label2'']
       \<noteq> networkContext_Labels labels0 [''label2'', ''label1'']"
  by (auto simp add: labels0_def visits_def networkContext_Labels_def label_entry_def map_index_def)

section \<open>Properties of the format resolvers and of the JSON mapping\<close>

text \<open>
  Claim C3, as amended. \<open>NewTaskFormat\<close> maps the alias \<open>table\<close> to the default
  table format of tasks, whose columns are all the accessors of a task view in their
  order, or to the ID-only quiet format when quiet is set; it maps \<open>raw\<close> to the block
  with one \<open>key: {{.Field}}\<close> line per accessor, or to \<open>id: {{.ID}}\<close> when quiet is set;
  every other source is returned as it is. \<open>NewFormat\<close> of the checkpoint kind has no
  quiet flag: it maps \<open>table\<close> to \<open>table {{.Name}}\<close> and returns every other source,
  \<open>raw\<close> included, as it is.
\<close>

theorem format_resolvers:
  "NewTaskFormat source quiet =
     (if source = ''table'' then
        (if quiet then ''{{.ID}}''
         else ''table '' @ column_template (map fst (taskContext_accessors L clock)))
      else if source = ''raw'' then
        (if quiet then ''id: {{.ID}}''
         else raw_block (zip task_raw_keys (map fst (taskContext_accessors L clock))))
      else source)
   \<and> NewFormat source =
     (if source = ''table'' then ''table '' @ column_template (map fst checkpointContext_accessors)
      else source)"
  by (simp add: NewTaskFormat_def NewFormat_def TableFormatKey_def RawFormatKey_def
      DefaultQuietFormat_def defaultTaskTableFormat_def taskRawFormat_def column_template_def
      raw_block_def field_ref_def task_raw_keys_def taskContext_accessors_def
      checkpointContext_accessors_def defaultCheckpointFormat_def)

theorem format_resolvers_witness:
  "NewTaskFormat ''table'' True = ''{{.ID}}''
   \<and> NewTaskFormat ''table'' False = defaultTaskTableFormat
   \<and> NewTaskFormat ''raw'' True = ''id: {{.ID}}''
   \<and> NewTaskFormat ''raw'' False = taskRawFormat
   \<and> NewTaskFormat ''{{.Name}}'' True = ''{{.Name}}''
   \<and> NewFormat ''table'' = ''table {{.Name}}''
   \<and> NewFormat ''{{.Name}}'' = ''{{.Name}}''"
  using format_resolvers [of "''table''" True lib0 0] format_resolvers [of "''table''" False lib0 0]
    format_resolvers [of "''raw''" True lib0 0] format_resolvers [of "''raw''" False lib0 0]
    format_resolvers [of "''{{.Name}}''" True lib0 0]
  by (simp add: defaultTaskTableFormat_def taskRawFormat_def column_template_def
      raw_block_def field_ref_def task_raw_keys_def taskContext_accessors_def
      checkpointContext_accessors_def)

text \<open>
  Claim C3 as stated fails for checkpoints: \<open>NewFormat\<close> does not map \<open>raw\<close> to a
  block of \<open>key: value\<close> lines, it returns the word itself.
\<close>

theorem checkpoint_raw_counterexample:
  "NewFormat ''raw'' = ''raw''
   \<and> NewFormat ''raw'' \<noteq> raw_block [(''name'', ''Name'')]"
  by (simp add: NewFormat_def TableFormatKey_def raw_block_def field_ref_def)




section \<open>Properties of rendering\<close>

lemma render_tasks_rows:
  assumes "\<And>t. t \<in> set tasks \<Longrightarrow>
     Execute E tmpl (subContext (taskContext_accessors L clock)
        \<lparr>trunc = Trunc ctx, task = t, name = map_index names (Task_ID t),
         node = map_index nodes (Task_ID t)\<rparr>) = Inr (row t)"
  shows "render_tasks L clock ctx names nodes tasks (contextFormat E tmpl) out =
     (None, out @ concat (map (\<lambda>t. row t @ [nl]) tasks))"
  using assms
  by (induction tasks arbitrary: out) (simp_all add: contextFormat_def)

lemma call_ID:
  "sub_call (subContext (taskContext_accessors L clock) c) ''ID'' = Some (taskContext_ID L c)"
  by (simp add: subContext_def call_accessor_def taskContext_accessors_def)

lemma preFormat_quiet: "preFormat DefaultQuietFormat = ''{{.ID}}''"
  by (simp add: preFormat_def DefaultQuietFormat_def IsTable_def HasPrefix_def TableFormatKey_def
      JSONFormatKey_def trim_spaces_def bs_def)

lemma not_IsTable_quiet: "\<not> IsTable DefaultQuietFormat"
  by (simp add: DefaultQuietFormat_def IsTable_def HasPrefix_def TableFormatKey_def)

text \<open>
  Claim C1, as amended. With the alias \<open>table\<close> and quiet set, rendering writes one
  line per task, in the order of the tasks, holding only the identifier of the task
  (its short form when the context truncates), and no header line. This holds for
  every evaluator that compiles \<open>{{.ID}}\<close> and runs it as the call of the accessor
  \<open>ID\<close>.
\<close>

theorem quiet_table_writes_ids:
  assumes "Parse E ''{{.ID}}'' = Inr tmpl"
    and "\<And>sub v. sub_call sub ''ID'' = Some v \<Longrightarrow> Execute E tmpl sub = Inr v"
  shows "task_FormatWrite E L clock
           \<lparr>Format = NewTaskFormat TableFormatKey True, Trunc = tr, Output = out\<rparr> tasks names nodes =
         (None, out @ concat (map (\<lambda>t. (if tr then TruncateID (shortLen L) (Task_ID t) else Task_ID t) @ [nl]) tasks))"
proof -
  have rows: "render_tasks L clock \<lparr>Format = DefaultQuietFormat, Trunc = tr, Output = out\<rparr> names nodes tasks
        (contextFormat E tmpl) out =
      (None, out @ concat (map (\<lambda>t. (if tr then TruncateID (shortLen L) (Task_ID t) else Task_ID t) @ [nl]) tasks))"
    by (rule render_tasks_rows) (simp add: assms(2) call_ID taskContext_ID_def)
  show ?thesis
    using assms(1) rows
    by (simp add: task_FormatWrite_def Write_def NewTaskFormat_def preFormat_quiet not_IsTable_quiet)
qed

lemma field_Parse_ID: "Parse field_evaluator ''{{.ID}}'' = Inr [Field ''ID'']"
  by code_simp

theorem quiet_table_writes_ids_witness:
  "Parse field_evaluator ''{{.ID}}'' = Inr [Field ''ID'']
   \<and> task_FormatWrite field_evaluator lib0 0
        \<lparr>Format = NewTaskFormat TableFormatKey True, Trunc = False, Output = []\<rparr> [task1, task2] names0 nodes0 =
      (None, ''abcdefghijklmnopqrstuvwxy'' @ [nl] @ ''zyxwvutsrqponmlkjihgfedcb'' @ [nl])"
proof -
  have exec: "\<And>sub v. sub_call sub ''ID'' = Some v \<Longrightarrow> Execute field_evaluator [Field ''ID''] sub = Inr v"
    by (simp add: field_evaluator_def)
  show ?thesis
    using quiet_table_writes_ids [OF field_Parse_ID exec, of lib0 0 False "[]" "[task1, task2]" names0 nodes0]
      field_Parse_ID
    by (simp add: task1_def task2_def)
qed

text \<open>
  Claim C1 as stated fails: quiet mode acts only through the resolver. A custom
  format is used as it is, a table format with inline columns keeps its header and
  its columns, and the raw format writes \<open>id: <identifier>\<close>.
\<close>

theorem quiet_custom_format_counterexample:
  "task_FormatWrite field_evaluator lib0 0
     \<lparr>Format = NewTaskFormat ''{{.Name}}'' True, Trunc = False, Output = []\<rparr> [task1, task2] names0 nodes0 =
   (None, ''web.1'' @ [nl] @ ''cache.1'' @ [nl])
   \<and> task_FormatWrite field_evaluator lib0 0
     \<lparr>Format = NewTaskFormat ''table {{.Name}}'' True, Trunc = False, Output = []\<rparr> [task1, task2] names0 nodes0 =
   (None, ''NAME'' @ [nl] @ ''web.1'' @ [nl] @ ''cache.1'' @ [nl])
   \<and> task_FormatWrite field_evaluator lib0 0
     \<lparr>Format = NewTaskFormat ''raw'' True, Trunc = False, Output = []\<rparr> [task1, task2] names0 nodes0 =
   (None, ''id: abcdefghijklmnopqrstuvwxy'' @ [nl] @ ''id: zyxwvutsrqponmlkjihgfedcb'' @ [nl])"
  by code_simp

text \<open>
  Claim C2. For every list of tasks, when the evaluator rejects the template with an
  error text that names the function, rendering returns an error whose text holds
  that name, and the sink is as it was before the call: no byte of a row or of a
  header is written.
\<close>

theorem rejected_template_writes_nothing:
  assumes "Parse E (preFormat fmt) = Inl (before @ fname @ after)"
  shows "task_FormatWrite E L clock \<lparr>Format = fmt, Trunc = tr, Output = out\<rparr> tasks names nodes =
         (Some ((''template parsing error: '' @ before) @ fname @ after), out)"
  using assms by (simp add: task_FormatWrite_def Write_def template_error_def)

theorem rejected_template_writes_nothing_witness:
  "Parse field_evaluator (preFormat ''{{InvalidFunction}}'') =
     Inl ((''template: :1: function '' @ [dq]) @ ''InvalidFunction'' @ ([dq] @ '' not defined''))
   \<and> task_FormatWrite field_evaluator lib0 0 \<lparr>Format = ''{{InvalidFunction}}'', Trunc = False, Output = []\<rparr>
        [task1, task2] names0 nodes0 =
      (Some (''template parsing error: template: :1: function '' @ [dq] @ ''InvalidFunction'' @ [dq] @ '' not defined''), [])"
proof -
  have rejected: "Parse field_evaluator (preFormat ''{{InvalidFunction}}'') =
     Inl ((''template: :1: function '' @ [dq]) @ ''InvalidFunction'' @ ([dq] @ '' not defined''))"
    by code_simp
  show ?thesis
    using rejected_template_writes_nothing [OF rejected, of lib0 0 False "[]" "[task1, task2]" names0 nodes0] rejected
    by simp
qed

text \<open>
  Claim C5, as amended. When quiet is requested, \<open>runPS\<close> sets the no-truncate flag
  before rendering, whatever it was: \<open>Print\<close> is called with the truncation flag off
  and the quiet flag on.
\<close>

theorem runPS_quiet_turns_truncation_off:
  assumes "opt_quiet options"
  shows "runPS_print DefaultFormat Print options tasks notfound =
     (case Print tasks False True
             (if length (opt_format options) = 0 then DefaultFormat True else opt_format options) of
        (Some err, out) \<Rightarrow> (Some err, out)
      | (None, out) \<Rightarrow> if length notfound \<noteq> 0 then (Some (Join notfound [nl]), out) else (None, out))"
  using assms by (simp add: runPS_print_def Let_def)

theorem runPS_quiet_turns_truncation_off_witness:
  "opt_quiet opts0
   \<and> runPS_print (\<lambda>quiet. TableFormatKey) (task_Print field_evaluator lib0 0 [] names0 nodes0) opts0 [task1, task2] [] =
     task_Print field_evaluator lib0 0 [] names0 nodes0 [task1, task2] False True TableFormatKey"
proof -
  have quiet: "opt_quiet opts0" by (simp add: opts0_def)
  have "fst (task_Print field_evaluator lib0 0 [] names0 nodes0 [task1, task2] False True TableFormatKey) = None"
    by code_simp
  then show ?thesis
    using runPS_quiet_turns_truncation_off [OF quiet, of "\<lambda>quiet. TableFormatKey"
        "task_Print field_evaluator lib0 0 [] names0 nodes0" "[task1, task2]" "[]"] quiet
    by (simp add: opts0_def split: prod.splits option.splits)
qed

text \<open>
  Claim C5 as stated fails: with quiet requested and no-truncate not requested,
  truncation is off, not on. The identifier is written in full, not as its short form.
\<close>

theorem runPS_quiet_truncation_counterexample:
  "opt_quiet opts0 \<and> \<not> opt_noTrunc opts0
   \<and> runPS_print (\<lambda>quiet. TableFormatKey) (task_Print field_evaluator lib0 0 [] names0 nodes0) opts0 [task1] [] =
       (None, ''abcdefghijklmnopqrstuvwxy'' @ [nl])
   \<and> TruncateID (shortLen lib0) (Task_ID task1) = ''abcdefghijkl''"
  by code_simp

end
